theory Spec2Isabelle
  imports Main
begin

section \<open>Python values\<close>

text \<open>
  The tool arguments arrive as a JSON object, so the values the gateway sees are
  Python's images of JSON values. Strings are lists of 8-bit characters, read as the
  code points U+0000..U+00FF. A float is kept as mantissa and binary exponent
  (its value is \<open>m * 2 ^ e\<close>); the code only ever asks whether it is zero.
\<close>

datatype pyval =
    PNone
  | PBool bool
  | PInt int
  | PFloat int int
  | PStr string
  | PList "pyval list"
  | PDict "(string \<times> pyval) list"

text \<open>Truth value testing, as \<open>not x\<close>, \<open>if x\<close> and \<open>x or y\<close> apply it.\<close>

fun truthy :: "pyval \<Rightarrow> bool" where
  "truthy PNone = False"
| "truthy (PBool b) = b"
| "truthy (PInt n) = (n \<noteq> 0)"
| "truthy (PFloat m e) = (m \<noteq> 0)"
| "truthy (PStr s) = (s \<noteq> [])"
| "truthy (PList xs) = (xs \<noteq> [])"
| "truthy (PDict kvs) = (kvs \<noteq> [])"

definition py_or :: "pyval \<Rightarrow> pyval \<Rightarrow> pyval" where
  "py_or a b = (if truthy a then a else b)"

text \<open>
  Exceptions. Every value of this type is an instance of Python's \<open>Exception\<close>, the
  class the handler of \<open>send_email\<close> names. Signals that derive from
  \<open>BaseException\<close> only (keyboard interrupt, interpreter exit, task cancellation)
  end or cancel the task and are not part of the model.
  \<open>OtherError cls text\<close> is an exception of a library class \<open>cls\<close> whose
  \<open>str\<close> is \<open>text\<close>.
\<close>

datatype exn =
    ValueError string
  | RuntimeError string
  | OtherError string string

fun str_exn :: "exn \<Rightarrow> string" where
  "str_exn (ValueError m) = m"
| "str_exn (RuntimeError m) = m"
| "str_exn (OtherError cls m) = m"

section \<open>The built-in \<open>int\<close> on a string\<close>

text \<open>
  \<open>int(s)\<close> in base 10: surrounding whitespace is stripped, one sign is allowed,
  then come decimal digits, with single underscores allowed between digits. Anything
  else raises \<open>ValueError\<close>, which is \<open>None\<close> here. The whitespace that
  \<open>int\<close> strips is tab, line feed, vertical tab, form feed, carriage return and
  space, and of the code points above ASCII the next-line control \<open>0x85\<close> and
  the no-break space \<open>0xA0\<close>; the separators \<open>0x1C\<close> to \<open>0x1F\<close> are not
  stripped. A string with more digits than the interpreter's limit, 4300 unless
  configured otherwise, raises \<open>ValueError\<close> too; leading zeros count,
  underscores and the sign do not.
\<close>

definition is_space :: "char \<Rightarrow> bool" where
  "is_space c = (let n = (of_char c :: nat) in
     (9 \<le> n \<and> n \<le> 13) \<or> n = 32 \<or> n = 133 \<or> n = 160)"

definition int_max_str_digits :: nat where
  "int_max_str_digits = 4300"

definition is_digit :: "char \<Rightarrow> bool" where
  "is_digit c = (let n = (of_char c :: nat) in 48 \<le> n \<and> n \<le> 57)"

definition digit_val :: "char \<Rightarrow> nat" where
  "digit_val c = (of_char c :: nat) - 48"

definition strip :: "string \<Rightarrow> string" where
  "strip s = rev (dropWhile is_space (rev (dropWhile is_space s)))"

fun parse_digits :: "nat \<Rightarrow> string \<Rightarrow> nat option" where
  "parse_digits acc [] = Some acc"
| "parse_digits acc [c] =
     (if is_digit c then Some (acc * 10 + digit_val c) else None)"
| "parse_digits acc (c # d # ds) =
     (if is_digit c then parse_digits (acc * 10 + digit_val c) (d # ds)
      else if c = CHR ''_'' \<and> is_digit d then parse_digits (acc * 10 + digit_val d) ds
      else None)"

definition parse_unsigned :: "string \<Rightarrow> nat option" where
  "parse_unsigned s =
     (case s of
        [] \<Rightarrow> None
      | d # ds \<Rightarrow>
          if int_max_str_digits < length (filter is_digit s) then None
          else if is_digit d then parse_digits (digit_val d) ds
          else None)"

definition py_int :: "string \<Rightarrow> int option" where
  "py_int s =
     (case strip s of
        [] \<Rightarrow> None
      | c # cs \<Rightarrow>
          if c = CHR ''-'' then map_option (\<lambda>n. - int n) (parse_unsigned cs)
          else if c = CHR ''+'' then map_option int (parse_unsigned cs)
          else map_option int (parse_unsigned (c # cs)))"

section \<open>The mail sender's configuration\<close>

record EmailClient =
  host :: string
  port :: int
  use_tls :: bool
  username :: string
  password :: string
  from_addr :: string

text \<open>\<open>os.environ.get(k, d)\<close> and \<open>str.lower\<close> on ASCII letters.\<close>

definition environ_get :: "(string \<rightharpoonup> string) \<Rightarrow> string \<Rightarrow> string \<Rightarrow> string" where
  "environ_get environ k d = (case environ k of None \<Rightarrow> d | Some v \<Rightarrow> v)"

definition lower_char :: "char \<Rightarrow> char" where
  "lower_char c = (let n = (of_char c :: nat) in
     if 65 \<le> n \<and> n \<le> 90 then char_of (n + 32) else c)"

definition lower :: "string \<Rightarrow> string" where
  "lower s = map lower_char s"

text \<open>\<open>not x\<close> for an optional string: \<open>None\<close> and the empty string are false.\<close>

definition not_str :: "string option \<Rightarrow> bool" where
  "not_str x = (case x of None \<Rightarrow> True | Some s \<Rightarrow> s = [])"

text \<open>
  \<open>EmailClient.__init__\<close>, reading the process environment. The checks come in the
  order of the source: the host first, then the port, the secure flag, and the
  credentials last.
\<close>

definition EmailClient_init :: "(string \<rightharpoonup> string) \<Rightarrow> exn + EmailClient" where
  "EmailClient_init environ =
     (if not_str (environ ''SMTP_HOST'') then Inl (RuntimeError ''SMTP_HOST is required'')
      else
        let port_str = environ_get environ ''SMTP_PORT'' ''587'';
            port = (case py_int port_str of Some n \<Rightarrow> n | None \<Rightarrow> 587);
            secure = (lower (environ_get environ ''SMTP_SECURE'' ''false'') = ''true'')
        in if not_str (environ ''SMTP_USER'') \<or> not_str (environ ''SMTP_PASS'')
           then Inl (RuntimeError ''SMTP_USER and SMTP_PASS are required'')
           else Inr \<lparr> host = the (environ ''SMTP_HOST''),
                      port = port,
                      use_tls = secure,
                      username = the (environ ''SMTP_USER''),
                      password = the (environ ''SMTP_PASS''),
                      from_addr = (if not_str (environ ''SMTP_FROM'')
                                   then the (environ ''SMTP_USER'')
                                   else the (environ ''SMTP_FROM'')) \<rparr>)"

section \<open>Rendering numbers and strings\<close>

text \<open>The decimal digits of a natural number, as \<open>%d\<close> and \<open>str\<close> print them.\<close>

fun dec :: "nat \<Rightarrow> string" where
  "dec n = (if n < 10 then [char_of (48 + n)]
            else dec (n div 10) @ [char_of (48 + n mod 10)])"

declare dec.simps [simp del]

definition dec_int :: "int \<Rightarrow> string" where
  "dec_int i = (if i < 0 then CHR ''-'' # dec (nat (- i)) else dec (nat i))"

text \<open>\<open>sep.join(xs)\<close> on a list of strings.\<close>

fun join :: "string \<Rightarrow> string list \<Rightarrow> string" where
  "join sep [] = []"
| "join sep [x] = x"
| "join sep (x # y # ys) = x @ sep @ join sep (y # ys)"

text \<open>
  \<open>email.utils.make_msgid()\<close> of the standard library, called without arguments:
  the format \<open><%d.%d.%d@%s>\<close> filled with the clock in hundredths of a second,
  the process id, 64 random bits and the host's fully qualified name. The four
  sources are arguments here.
\<close>

definition make_msgid :: "nat \<Rightarrow> nat \<Rightarrow> nat \<Rightarrow> string \<Rightarrow> string" where
  "make_msgid timeval pid randint domain =
     ''<'' @ dec timeval @ ''.'' @ dec pid @ ''.'' @ dec randint @ ''@'' @ domain @ ''>''"

text \<open>
  The syntax of a message identifier: \<open><\<close>, a left side, \<open>@\<close>, a right side,
  \<open>>\<close>, where both sides are dot-atoms: non-empty runs of atom characters
  (letters, digits and the specials \<open>! # $ % & ' * + - / = ? ^ _ ` { | } ~\<close>)
  separated by single dots. \<open>atoms seen s\<close> reads \<open>s\<close>; \<open>seen\<close> says that the
  character before was an atom character.
\<close>

definition is_atext :: "char \<Rightarrow> bool" where
  "is_atext c = (let n = (of_char c :: nat) in
     (48 \<le> n \<and> n \<le> 57) \<or> (65 \<le> n \<and> n \<le> 90) \<or> (97 \<le> n \<and> n \<le> 122)
     \<or> n \<in> set [33, 35, 36, 37, 38, 39, 42, 43, 45, 47, 61, 63, 94, 95, 96, 123, 124, 125, 126])"

fun atoms :: "bool \<Rightarrow> string \<Rightarrow> bool" where
  "atoms seen [] = seen"
| "atoms seen (c # cs) =
     (if is_atext c then atoms True cs
      else if c = CHR ''.'' \<and> seen then atoms False cs
      else False)"

definition dot_atom_text :: "string \<Rightarrow> bool" where
  "dot_atom_text s = atoms False s"

definition valid_msgid :: "string \<Rightarrow> bool" where
  "valid_msgid s =
     (case s of
        [] \<Rightarrow> False
      | c # cs \<Rightarrow>
          c = CHR ''<'' \<and> cs \<noteq> [] \<and> last cs = CHR ''>'' \<and>
          (let body = butlast cs;
               left = takeWhile (\<lambda>x. x \<noteq> CHR ''@'') body;
               rest = dropWhile (\<lambda>x. x \<noteq> CHR ''@'') body
           in rest \<noteq> [] \<and> dot_atom_text left \<and> dot_atom_text (tl rest)))"

section \<open>Messages and the collaborators of one call\<close>

text \<open>
  An \<open>EmailMessage\<close> as far as \<open>send_email\<close> builds it: the headers in the order
  they were assigned, and the content parts (one part for a plain message, the parts
  of the \<open>multipart/alternative\<close> container otherwise).
\<close>

record content_part =
  subtype :: string
  payload :: pyval

record EmailMessage =
  headers :: "(string \<times> pyval) list"
  parts :: "content_part list"

text \<open>The keyword arguments of \<open>aiosmtplib.send\<close>.\<close>

record smtp_args =
  hostname :: string
  smtp_port :: int
  smtp_username :: string
  smtp_password :: string
  arg_use_tls :: bool
  arg_start_tls :: bool

text \<open>
  The second component of the transport's response: raw bytes, which have a
  \<open>decode\<close> method, or an object without one, given by its \<open>str\<close>.
\<close>

datatype smtp_info = InfoBytes string | InfoStr string

text \<open>
  What lies outside the repository, for the duration of one call: the sources of
  \<open>make_msgid\<close>, the mail-message library's verdict on a header assignment and on
  a content value (\<open>None\<close>: accepted, \<open>Some e\<close>: it raises \<open>e\<close>), the
  transport send (it returns a response pair or raises), the decoding of raw bytes,
  and the printing of floats.
\<close>

record env =
  timeval :: nat
  pid :: nat
  randint :: nat
  fqdn :: string
  header_error :: "string \<Rightarrow> pyval \<Rightarrow> exn option"
  content_error :: "pyval \<Rightarrow> string \<Rightarrow> exn option"
  smtp_send :: "EmailMessage \<Rightarrow> smtp_args \<Rightarrow> exn + (pyval \<times> smtp_info)"
  bytes_decode :: "string \<Rightarrow> exn + string"
  float_repr :: "int \<Rightarrow> int \<Rightarrow> string"

definition new_message :: EmailMessage where
  "new_message = \<lparr> headers = [], parts = [] \<rparr>"

text \<open>\<open>msg[name] = value\<close>: the policy parses the value or raises; the header is appended.\<close>

definition setitem :: "env \<Rightarrow> string \<Rightarrow> pyval \<Rightarrow> EmailMessage \<Rightarrow> exn + EmailMessage" where
  "setitem env name v msg =
     (case header_error env name v of
        Some e \<Rightarrow> Inl e
      | None \<Rightarrow> Inr (msg\<lparr> headers := headers msg @ [(name, v)] \<rparr>))"

text \<open>\<open>msg.set_content(v)\<close>: the message's content becomes one \<open>text/plain\<close> part.\<close>

definition set_content :: "env \<Rightarrow> pyval \<Rightarrow> EmailMessage \<Rightarrow> exn + EmailMessage" where
  "set_content env v msg =
     (case content_error env v ''plain'' of
        Some e \<Rightarrow> Inl e
      | None \<Rightarrow> Inr (msg\<lparr> parts := [\<lparr> subtype = ''plain'', payload = v \<rparr>] \<rparr>))"

text \<open>
  \<open>msg.add_alternative(v, subtype=st)\<close>: the message becomes
  \<open>multipart/alternative\<close>, its former content the first part, and a new
  \<open>text/st\<close> part is attached after it.
\<close>

definition add_alternative :: "env \<Rightarrow> pyval \<Rightarrow> string \<Rightarrow> EmailMessage \<Rightarrow> exn + EmailMessage" where
  "add_alternative env v st msg =
     (case content_error env v st of
        Some e \<Rightarrow> Inl e
      | None \<Rightarrow> Inr (msg\<lparr> parts := parts msg @ [\<lparr> subtype = st, payload = v \<rparr>] \<rparr>))"

section \<open>The mail sender\<close>

datatype SendResult =
    Success (messageId: string) (accepted: "string list") (rejected: "string list")
            (responseCode: pyval) (responseInfo: string)
  | Failure (messageId: string) (accepted: "string list") (rejected: "string list")
            (error: string)

text \<open>
  What a call did, in order: the mail sender was entered, a message object was
  created, the transport was asked to send a message with the given arguments.
\<close>

datatype event =
    MailSenderCalled
  | MessageCreated
  | TransportSend EmailMessage smtp_args

text \<open>
  Lines 50 to 63 of \<open>send_email\<close>: the four headers, the message id generated
  between \<open>Subject\<close> and \<open>Message-Id\<close>, then the content. The first assignment that
  the library refuses ends the composition with its exception.
\<close>

definition compose ::
  "EmailClient \<Rightarrow> env \<Rightarrow> string list \<Rightarrow> pyval \<Rightarrow> pyval \<Rightarrow> pyval \<Rightarrow> exn + (string \<times> EmailMessage)" where
  "compose self env to subject text html =
     (case setitem env ''From'' (PStr (from_addr self)) new_message of
        Inl e \<Rightarrow> Inl e
      | Inr m1 \<Rightarrow>
     (case setitem env ''To'' (PStr (join '', '' to)) m1 of
        Inl e \<Rightarrow> Inl e
      | Inr m2 \<Rightarrow>
     (case setitem env ''Subject'' subject m2 of
        Inl e \<Rightarrow> Inl e
      | Inr m3 \<Rightarrow>
     (let msg_id = make_msgid (timeval env) (pid env) (randint env) (fqdn env) in
      case setitem env ''Message-Id'' (PStr msg_id) m3 of
        Inl e \<Rightarrow> Inl e
      | Inr m4 \<Rightarrow>
          if truthy html then
            (case set_content env (py_or text (PStr [])) m4 of
               Inl e \<Rightarrow> Inl e
             | Inr m5 \<Rightarrow>
                 (case add_alternative env html ''html'' m5 of
                    Inl e \<Rightarrow> Inl e
                  | Inr m6 \<Rightarrow> Inr (msg_id, m6)))
          else
            (case set_content env (py_or text (PStr [])) m4 of
               Inl e \<Rightarrow> Inl e
             | Inr m5 \<Rightarrow> Inr (msg_id, m5))))))"

text \<open>Lines 68 and 72 to 77: the arguments handed to the transport.\<close>

definition transport_args :: "EmailClient \<Rightarrow> smtp_args" where
  "transport_args self =
     (let start_tls = \<not> use_tls self
      in \<lparr> hostname = host self,
           smtp_port = port self,
           smtp_username = username self,
           smtp_password = password self,
           arg_use_tls = use_tls self,
           arg_start_tls = start_tls \<rparr>)"

text \<open>
  How the transport library reads the two flags: TLS from the first byte, a
  cleartext connection upgraded by STARTTLS, or cleartext throughout; it refuses
  the call when both flags are set.
\<close>

datatype transport_mode = ImplicitTLS | STARTTLS | Cleartext

definition mode_of :: "smtp_args \<Rightarrow> transport_mode option" where
  "mode_of a =
     (if arg_use_tls a \<and> arg_start_tls a then None
      else if arg_use_tls a then Some ImplicitTLS
      else if arg_start_tls a then Some STARTTLS
      else Some Cleartext)"

text \<open>\<open>info.decode() if hasattr(info, "decode") else str(info)\<close>.\<close>

definition info_text :: "env \<Rightarrow> smtp_info \<Rightarrow> exn + string" where
  "info_text env info =
     (case info of InfoBytes b \<Rightarrow> bytes_decode env b | InfoStr s \<Rightarrow> Inr s)"

text \<open>
  The body of the \<open>try\<close> statement, lines 70 to 86: the send, then the reading of
  its response. It yields the code and the text of the response, or the exception
  raised on the way.
\<close>

definition try_body :: "env \<Rightarrow> EmailMessage \<Rightarrow> smtp_args \<Rightarrow> exn + (pyval \<times> string)" where
  "try_body env msg args =
     (case smtp_send env msg args of
        Inl e \<Rightarrow> Inl e
      | Inr (code, info) \<Rightarrow>
          (case info_text env info of
             Inl e \<Rightarrow> Inl e
           | Inr s \<Rightarrow> Inr (code, s)))"

text \<open>
  \<open>EmailClient.send_email\<close>. The result is what the call returns (\<open>Inr\<close>) or
  raises (\<open>Inl\<close>), with the events of the call. The check of the recipients and
  the composition are outside the \<open>try\<close>; an exception of its body becomes the
  failure record.
\<close>

definition send_email ::
  "EmailClient \<Rightarrow> env \<Rightarrow> string list \<Rightarrow> pyval \<Rightarrow> pyval \<Rightarrow> pyval \<Rightarrow> (exn + SendResult) \<times> event list" where
  "send_email self env to subject text html =
     (if to = [] then (Inl (ValueError ''At least one recipient is required''), [MailSenderCalled])
      else
        case compose self env to subject text html of
          Inl e \<Rightarrow> (Inl e, [MailSenderCalled, MessageCreated])
        | Inr (msg_id, msg) \<Rightarrow>
            (Inr (case try_body env msg (transport_args self) of
                    Inr (code, s) \<Rightarrow> Success msg_id to [] code s
                  | Inl e \<Rightarrow> Failure msg_id [] to (str_exn e)),
             [MailSenderCalled, MessageCreated, TransportSend msg (transport_args self)]))"

section \<open>The tool gateway\<close>

text \<open>
  \<open>json.dumps\<close> with its defaults: separators \<open>", "\<close> and \<open>": "\<close>, and every
  character outside the printable ASCII range escaped.
\<close>

definition hex_digit :: "nat \<Rightarrow> char" where
  "hex_digit n = (if n < 10 then char_of (48 + n) else char_of (87 + n))"

definition json_escape :: "char \<Rightarrow> string" where
  "json_escape c = (let n = (of_char c :: nat) in
     if n = 34 then [CHR 0x5C, CHR 0x22]
     else if n = 92 then [CHR 0x5C, CHR 0x5C]
     else if n = 10 then [CHR 0x5C, CHR ''n'']
     else if n = 13 then [CHR 0x5C, CHR ''r'']
     else if n = 9 then [CHR 0x5C, CHR ''t'']
     else if n = 8 then [CHR 0x5C, CHR ''b'']
     else if n = 12 then [CHR 0x5C, CHR ''f'']
     else if 32 \<le> n \<and> n \<le> 126 then [c]
     else [CHR 0x5C, CHR ''u'', CHR ''0'', CHR ''0'', hex_digit (n div 16), hex_digit (n mod 16)])"

definition json_string :: "string \<Rightarrow> string" where
  "json_string s = CHR 0x22 # concat (map json_escape s) @ [CHR 0x22]"

fun json_dumps :: "(int \<Rightarrow> int \<Rightarrow> string) \<Rightarrow> pyval \<Rightarrow> string"
  and json_items :: "(int \<Rightarrow> int \<Rightarrow> string) \<Rightarrow> pyval list \<Rightarrow> string"
  and json_members :: "(int \<Rightarrow> int \<Rightarrow> string) \<Rightarrow> (string \<times> pyval) list \<Rightarrow> string" where
  "json_dumps fr PNone = ''null''"
| "json_dumps fr (PBool b) = (if b then ''true'' else ''false'')"
| "json_dumps fr (PInt i) = dec_int i"
| "json_dumps fr (PFloat m e) = fr m e"
| "json_dumps fr (PStr s) = json_string s"
| "json_dumps fr (PList xs) = ''['' @ json_items fr xs @ '']''"
| "json_dumps fr (PDict kvs) = ''{'' @ json_members fr kvs @ ''}''"
| "json_items fr [] = []"
| "json_items fr [x] = json_dumps fr x"
| "json_items fr (x # y # ys) = json_dumps fr x @ '', '' @ json_items fr (y # ys)"
| "json_members fr [] = []"
| "json_members fr [(k, v)] = json_string k @ '': '' @ json_dumps fr v"
| "json_members fr ((k, v) # kv # kvs) =
     json_string k @ '': '' @ json_dumps fr v @ '', '' @ json_members fr (kv # kvs)"

text \<open>The dictionary that \<open>send_email\<close> returns, its keys in the order of the source.\<close>

fun result_dict :: "SendResult \<Rightarrow> pyval" where
  "result_dict (Success mid acc rej code info) =
     PDict [(''messageId'', PStr mid),
            (''accepted'', PList (map PStr acc)),
            (''rejected'', PList (map PStr rej)),
            (''responseCode'', code),
            (''responseInfo'', PStr info)]"
| "result_dict (Failure mid acc rej err) =
     PDict [(''messageId'', PStr mid),
            (''accepted'', PList (map PStr acc)),
            (''rejected'', PList (map PStr rej)),
            (''error'', PStr err)]"

record TextContent =
  content_type :: string
  content_text :: string

text \<open>\<open>arguments.get(k)\<close>: \<open>None\<close> when the key is missing.\<close>

definition dict_get :: "(string \<rightharpoonup> pyval) \<Rightarrow> string \<Rightarrow> pyval" where
  "dict_get arguments k = (case arguments k of None \<Rightarrow> PNone | Some v \<Rightarrow> v)"

text \<open>\<open>isinstance(x, str)\<close>, and the strings of a list that passed the check.\<close>

fun is_str :: "pyval \<Rightarrow> bool" where
  "is_str (PStr s) = True"
| "is_str v = False"

fun str_of :: "pyval \<Rightarrow> string" where
  "str_of (PStr s) = s"
| "str_of v = []"

text \<open>
  \<open>isinstance(to, list) and all(isinstance(x, str) for x in to)\<close>: the list of
  strings when the check passes, \<open>None\<close> when it fails.
\<close>

fun list_of_strings :: "pyval \<Rightarrow> string list option" where
  "list_of_strings (PList xs) = (if list_all is_str xs then Some (map str_of xs) else None)"
| "list_of_strings v = None"

text \<open>The message \<open>'to' must be a list of strings\<close>; \<open>CHR 0x27\<close> is the apostrophe.\<close>

definition to_must_be_list :: string where
  "to_must_be_list = CHR 0x27 # ''to'' @ CHR 0x27 # '' must be a list of strings''"

text \<open>\<open>handle_call_tool\<close>: what it returns or raises, and the events of the call.\<close>

definition handle_call_tool ::
  "EmailClient \<Rightarrow> env \<Rightarrow> string \<Rightarrow> (string \<rightharpoonup> pyval) \<Rightarrow> (exn + TextContent list) \<times> event list" where
  "handle_call_tool email_client env name arguments =
     (if name \<noteq> ''send_email'' then (Inl (ValueError (''Unknown tool: '' @ name)), [])
      else
        let to = py_or (dict_get arguments ''to'') (PList []);
            subject = py_or (dict_get arguments ''subject'') (PStr []);
            body = py_or (dict_get arguments ''body'') (PStr [])
        in case list_of_strings to of
             None \<Rightarrow> (Inl (ValueError to_must_be_list), [])
           | Some recipients \<Rightarrow>
               (case send_email email_client env recipients subject body PNone of
                  (Inl e, tr) \<Rightarrow> (Inl e, tr)
                | (Inr result, tr) \<Rightarrow>
                    (Inr [\<lparr> content_type = ''text'',
                            content_text = json_dumps (float_repr env) (result_dict result) \<rparr>], tr)))"

text \<open>\<open>handle_list_tools\<close>: the one descriptor, with the schema's properties and required fields.\<close>

record Tool =
  tool_name :: string
  description :: string
  properties :: "(string \<times> string) list"
  required :: "string list"

definition handle_list_tools :: "Tool list" where
  "handle_list_tools =
     [\<lparr> tool_name = ''send_email'',
        description = ''Send an email to a recipient'',
        properties = [(''to'', ''array of string''), (''subject'', ''string''), (''body'', ''string'')],
        required = [''to'', ''subject'', ''body''] \<rparr>]"

section \<open>The server\<close>

text \<open>
  The request loop belongs to the protocol runtime, which is not part of the
  repository; it is modelled from the specification's state machine. Loading the
  module constructs the one mail sender and aborts when that fails. In
  \<open>Ready\<close> the runtime answers a list request with the descriptors, and an
  invocation with the handler's content, or, when the handler raises, with an error
  for that call carrying the exception's text. The state is never changed by a
  request.
\<close>

datatype server_state = Uninitialized | Ready EmailClient

datatype request = ListTools | CallTool string "string \<rightharpoonup> pyval"

datatype response =
    ToolsResult "Tool list"
  | CallResult "TextContent list"
  | ProtocolError string

definition startup :: "(string \<rightharpoonup> string) \<Rightarrow> exn + server_state" where
  "startup environ =
     (case EmailClient_init environ of Inl e \<Rightarrow> Inl e | Inr c \<Rightarrow> Inr (Ready c))"

fun server_step ::
  "server_state \<Rightarrow> env \<Rightarrow> request \<Rightarrow> (server_state \<times> response \<times> event list) option" where
  "server_step Uninitialized env req = None"
| "server_step (Ready c) env ListTools = Some (Ready c, ToolsResult handle_list_tools, [])"
| "server_step (Ready c) env (CallTool name arguments) =
     (case handle_call_tool c env name arguments of
        (Inl e, tr) \<Rightarrow> Some (Ready c, ProtocolError (str_exn e), tr)
      | (Inr content, tr) \<Rightarrow> Some (Ready c, CallResult content, tr))"

text \<open>The responses to a sequence of requests, each with the collaborators of its call.\<close>

fun serve :: "server_state \<Rightarrow> (env \<times> request) list \<Rightarrow> response list" where
  "serve st [] = []"
| "serve st ((env, req) # rest) =
     (case server_step st env req of
        None \<Rightarrow> []
      | Some (st', resp, tr) \<Rightarrow> resp # serve st' rest)"

section \<open>Example configurations and collaborators\<close>

text \<open>The configuration and the request of the specification's scenarios.\<close>

definition example_environ :: "string \<rightharpoonup> string" where
  "example_environ =
     [''SMTP_HOST'' \<mapsto> ''smtp.example.com'', ''SMTP_PORT'' \<mapsto> ''submission'',
      ''SMTP_USER'' \<mapsto> ''a@example.com'', ''SMTP_PASS'' \<mapsto> ''x'']"

definition smtps_environ :: "string \<rightharpoonup> string" where
  "smtps_environ =
     [''SMTP_HOST'' \<mapsto> ''smtp.example.com'', ''SMTP_PORT'' \<mapsto> ''465'',
      ''SMTP_SECURE'' \<mapsto> ''true'',
      ''SMTP_USER'' \<mapsto> ''a@example.com'', ''SMTP_PASS'' \<mapsto> ''x'']"

text \<open>A port string of 4301 digits, one more than the interpreter's limit.\<close>

definition long_port :: string where
  "long_port = replicate 4301 (CHR ''1'')"

definition example_client :: EmailClient where
  "example_client =
     \<lparr> host = ''smtp.example.com'', port = 587, use_tls = False,
       username = ''a@example.com'', password = ''x'', from_addr = ''a@example.com'' \<rparr>"

text \<open>Three invocations: without \<open>to\<close>, with a number for \<open>to\<close>, and a well-formed one.\<close>

definition args_without_to :: "string \<rightharpoonup> pyval" where
  "args_without_to = [''subject'' \<mapsto> PStr ''Hi'', ''body'' \<mapsto> PStr ''Hello'']"

definition args_to_zero :: "string \<rightharpoonup> pyval" where
  "args_to_zero = [''to'' \<mapsto> PInt 0, ''subject'' \<mapsto> PStr ''Hi'', ''body'' \<mapsto> PStr ''Hello'']"

definition args_to_number_list :: "string \<rightharpoonup> pyval" where
  "args_to_number_list = [''to'' \<mapsto> PList [PInt 7], ''subject'' \<mapsto> PStr ''Hi'', ''body'' \<mapsto> PStr ''Hello'']"

definition example_args :: "string \<rightharpoonup> pyval" where
  "example_args =
     [''to'' \<mapsto> PList [PStr ''b@example.com''], ''subject'' \<mapsto> PStr ''Hi'',
      ''body'' \<mapsto> PStr ''Hello'']"

text \<open>The identifier and the message that the example collaborators produce for
  the scenario's request, and a subject that spans two lines.\<close>

definition example_msgid :: string where
  "example_msgid = make_msgid 173073600000 4242 1234567890123 ''mail.example.com''"

definition example_message :: EmailMessage where
  "example_message =
     \<lparr> headers = [(''From'', PStr ''a@example.com''), (''To'', PStr ''b@example.com''),
                   (''Subject'', PStr ''Hi''), (''Message-Id'', PStr example_msgid)],
       parts = [\<lparr> subtype = ''plain'', payload = PStr ''Hello'' \<rparr>] \<rparr>"

definition two_line_subject :: string where
  "two_line_subject = ''Hi'' @ [CHR 0x0A] @ ''Bcc: c@example.com''"

text \<open>Transports: one that accepts, one that refuses the credentials, one that fails
  with an exception without text, and one that answers with bytes that do not decode.\<close>

definition accept_all :: "EmailMessage \<Rightarrow> smtp_args \<Rightarrow> exn + (pyval \<times> smtp_info)" where
  "accept_all msg args = Inr (PInt 250, InfoStr ''OK'')"

definition refuse_auth :: "EmailMessage \<Rightarrow> smtp_args \<Rightarrow> exn + (pyval \<times> smtp_info)" where
  "refuse_auth msg args = Inl (OtherError ''SMTPAuthenticationError'' ''authentication failed'')"

definition fail_silently :: "EmailMessage \<Rightarrow> smtp_args \<Rightarrow> exn + (pyval \<times> smtp_info)" where
  "fail_silently msg args = Inl (OtherError ''TimeoutError'' [])"

definition answer_raw :: "EmailMessage \<Rightarrow> smtp_args \<Rightarrow> exn + (pyval \<times> smtp_info)" where
  "answer_raw msg args = Inr (PInt 250, InfoBytes [CHR 0xFF])"

text \<open>
  A library that accepts every header and content value, and one whose policy
  refuses a header value with a line feed before its last character. The decoder
  accepts ASCII bytes and refuses every other byte; UTF-8 agrees with it on ASCII
  input and on the byte \<open>0xFF\<close>.
\<close>

definition accept_header :: "string \<Rightarrow> pyval \<Rightarrow> exn option" where
  "accept_header name v = None"

definition accept_content :: "pyval \<Rightarrow> string \<Rightarrow> exn option" where
  "accept_content v st = None"

definition refuse_linefeed :: "string \<Rightarrow> pyval \<Rightarrow> exn option" where
  "refuse_linefeed name v =
     (if CHR 0x0A \<in> set (butlast (str_of v))
      then Some (ValueError ''Header values may not contain linefeed or carriage return characters'')
      else None)"

definition ascii_decode :: "string \<Rightarrow> exn + string" where
  "ascii_decode b =
     (if list_all (\<lambda>c. (of_char c :: nat) < 128) b then Inr b
      else Inl (OtherError ''UnicodeDecodeError'' ''invalid start byte''))"

definition zero_repr :: "int \<Rightarrow> int \<Rightarrow> string" where
  "zero_repr m e = ''0.0''"

definition example_env ::
  "(string \<Rightarrow> pyval \<Rightarrow> exn option) \<Rightarrow> (EmailMessage \<Rightarrow> smtp_args \<Rightarrow> exn + (pyval \<times> smtp_info)) \<Rightarrow> env" where
  "example_env policy transport =
     \<lparr> timeval = 173073600000, pid = 4242, randint = 1234567890123,
       fqdn = ''mail.example.com'',
       header_error = policy, content_error = accept_content,
       smtp_send = transport, bytes_decode = ascii_decode, float_repr = zero_repr \<rparr>"

text \<open>The accepting collaborators on a host whose qualified name ends with a dot.\<close>

definition dotted_env :: env where
  "dotted_env = (example_env accept_header accept_all)\<lparr> fqdn := ''mail.example.com.'' \<rparr>"

section \<open>Facts shared by the results\<close>

lemma send_email_empty:
  "send_email self env [] subject text html =
     (Inl (ValueError ''At least one recipient is required''), [MailSenderCalled])"
  by (simp add: send_email_def)

lemma send_email_refused:
  assumes "to \<noteq> []" and "compose self env to subject text html = Inl e"
  shows "send_email self env to subject text html = (Inl e, [MailSenderCalled, MessageCreated])"
  using assms by (simp add: send_email_def)

lemma send_email_composed:
  assumes "to \<noteq> []" and "compose self env to subject text html = Inr (mid, msg)"
  shows "send_email self env to subject text html =
     (Inr (case try_body env msg (transport_args self) of
             Inr (code, s) \<Rightarrow> Success mid to [] code s
           | Inl e \<Rightarrow> Failure mid [] to (str_exn e)),
      [MailSenderCalled, MessageCreated, TransportSend msg (transport_args self)])"
  using assms by (simp add: send_email_def)

lemma try_body_raises:
  "try_body env msg args = Inl e \<longleftrightarrow>
     smtp_send env msg args = Inl e
     \<or> (\<exists>code b. smtp_send env msg args = Inr (code, InfoBytes b) \<and> bytes_decode env b = Inl e)"
  by (auto simp: try_body_def info_text_def split: sum.splits prod.splits smtp_info.splits)

lemma send_email_outcomes:
  assumes "send_email self env to subject text html = (Inr r, tr)"
  shows "to \<noteq> []"
    and "\<exists>mid msg. compose self env to subject text html = Inr (mid, msg)
           \<and> tr = [MailSenderCalled, MessageCreated, TransportSend msg (transport_args self)]
           \<and> r = (case try_body env msg (transport_args self) of
                     Inr (code, s) \<Rightarrow> Success mid to [] code s
                   | Inl e \<Rightarrow> Failure mid [] to (str_exn e))"
proof -
  from assms show n: "to \<noteq> []"
    by (auto simp: send_email_def split: if_splits)
  from assms n obtain mid msg where c: "compose self env to subject text html = Inr (mid, msg)"
    by (cases "compose self env to subject text html") (auto simp: send_email_def)
  from send_email_composed [OF n c] assms
  have "tr = [MailSenderCalled, MessageCreated, TransportSend msg (transport_args self)]
      \<and> r = (case try_body env msg (transport_args self) of
                Inr (code, s) \<Rightarrow> Success mid to [] code s
              | Inl e \<Rightarrow> Failure mid [] to (str_exn e))"
    by simp
  with c show "\<exists>mid msg. compose self env to subject text html = Inr (mid, msg)
           \<and> tr = [MailSenderCalled, MessageCreated, TransportSend msg (transport_args self)]
           \<and> r = (case try_body env msg (transport_args self) of
                     Inr (code, s) \<Rightarrow> Success mid to [] code s
                   | Inl e \<Rightarrow> Failure mid [] to (str_exn e))"
    by blast
qed

lemma send_email_starts_with_call:
  "\<exists>tr. snd (send_email self env to subject text html) = MailSenderCalled # tr"
  by (cases "compose self env to subject text html")
     (auto simp: send_email_def split: prod.splits)

lemma compose_headers:
  assumes "compose self env to subject text html = Inr (mid, msg)"
  shows "mid = make_msgid (timeval env) (pid env) (randint env) (fqdn env)"
    and "headers msg = [(''From'', PStr (from_addr self)), (''To'', PStr (join '', '' to)),
                        (''Subject'', subject), (''Message-Id'', PStr mid)]"
  using assms
  by (auto simp: compose_def setitem_def set_content_def add_alternative_def new_message_def Let_def
      split: option.splits sum.splits if_splits)

lemma compose_accepted:
  assumes "\<forall>name v. header_error env name v = None" and "\<forall>v st. content_error env v st = None"
  shows "\<exists>msg. compose self env to subject text html =
           Inr (make_msgid (timeval env) (pid env) (randint env) (fqdn env), msg)"
  using assms
  by (simp add: compose_def setitem_def set_content_def add_alternative_def new_message_def Let_def)

lemma library_ignores_transport:
  "setitem (env\<lparr> smtp_send := t, bytes_decode := d \<rparr>) = setitem env"
  "set_content (env\<lparr> smtp_send := t, bytes_decode := d \<rparr>) = set_content env"
  "add_alternative (env\<lparr> smtp_send := t, bytes_decode := d \<rparr>) = add_alternative env"
  by (simp_all add: fun_eq_iff setitem_def set_content_def add_alternative_def)

lemma compose_ignores_transport:
  "compose self (env\<lparr> smtp_send := t, bytes_decode := d \<rparr>) to subject text html =
   compose self env to subject text html"
  unfolding compose_def library_ignores_transport by (simp cong: sum.case_cong)

text \<open>The identifiers that \<open>make_msgid\<close> produces are well-formed.\<close>

lemma digit_char: "(k::nat) < 10 \<Longrightarrow> is_digit (char_of (48 + k))"
  by (simp add: is_digit_def)

lemma dec_digits: "dec n \<noteq> [] \<and> list_all is_digit (dec n)"
proof (induction n rule: dec.induct)
  case (1 n)
  show ?case
  proof (cases "n < 10")
    case True
    then have "dec n = [char_of (48 + n)]"
      by (subst dec.simps) simp
    with True show ?thesis
      by (simp add: digit_char)
  next
    case False
    then have "dec n = dec (n div 10) @ [char_of (48 + n mod 10)]"
      by (subst dec.simps) simp
    moreover have "is_digit (char_of (48 + n mod 10))"
      by (rule digit_char) simp
    ultimately show ?thesis
      using 1 False by simp
  qed
qed

lemma digit_is_atext: "is_digit c \<Longrightarrow> is_atext c"
  by (simp add: is_digit_def is_atext_def Let_def)

lemma atext_not_at: "is_atext c \<Longrightarrow> c \<noteq> CHR ''@''"
  by (auto simp: is_atext_def Let_def)

lemma atoms_run:
  "xs \<noteq> [] \<Longrightarrow> list_all is_atext xs \<Longrightarrow> atoms seen (xs @ ys) = atoms True ys"
proof (induction xs arbitrary: seen)
  case Nil
  then show ?case by simp
next
  case (Cons x xs)
  then show ?case by (cases xs) auto
qed

lemma atoms_dot: "atoms True (CHR ''.'' # ys) = atoms False ys"
  by (simp add: is_atext_def)

lemma dec_atext: "dec n \<noteq> []" "list_all is_atext (dec n)"
  using dec_digits [of n] by (auto simp: list_all_iff digit_is_atext)

lemma msgid_left:
  "dot_atom_text (dec t @ ''.'' @ dec p @ ''.'' @ dec r)"
  "CHR ''@'' \<notin> set (dec t @ ''.'' @ dec p @ ''.'' @ dec r)"
proof -
  have "atoms False (dec t @ (CHR ''.'' # dec p @ (CHR ''.'' # dec r @ []))) =
        atoms True (CHR ''.'' # dec p @ (CHR ''.'' # dec r @ []))"
    by (rule atoms_run) (rule dec_atext)+
  also have "\<dots> = atoms False (dec p @ (CHR ''.'' # dec r @ []))"
    by (rule atoms_dot)
  also have "\<dots> = atoms True (CHR ''.'' # dec r @ [])"
    by (rule atoms_run) (rule dec_atext)+
  also have "\<dots> = atoms False (dec r @ [])"
    by (rule atoms_dot)
  also have "\<dots> = atoms True []"
    by (rule atoms_run) (rule dec_atext)+
  finally show "dot_atom_text (dec t @ ''.'' @ dec p @ ''.'' @ dec r)"
    by (simp add: dot_atom_text_def)
  show "CHR ''@'' \<notin> set (dec t @ ''.'' @ dec p @ ''.'' @ dec r)"
    using dec_atext(2) [of t] dec_atext(2) [of p] dec_atext(2) [of r]
    by (auto simp: list_all_iff dest: atext_not_at)
qed

lemma make_msgid_valid_iff:
  "valid_msgid (make_msgid t p r domain) \<longleftrightarrow> dot_atom_text domain"
proof -
  define left where "left = dec t @ ''.'' @ dec p @ ''.'' @ dec r"
  have m: "make_msgid t p r domain = CHR ''<'' # (left @ CHR ''@'' # domain) @ ''>''"
    by (simp add: make_msgid_def left_def)
  have n: "\<And>x. x \<in> set left \<Longrightarrow> x \<noteq> CHR ''@''" and d: "dot_atom_text left"
    using msgid_left [of t p r] by (auto simp: left_def)
  from n have tw: "takeWhile (\<lambda>x. x \<noteq> CHR ''@'') (left @ CHR ''@'' # domain) = left"
    by (simp add: takeWhile_append2)
  from n have dw: "dropWhile (\<lambda>x. x \<noteq> CHR ''@'') (left @ CHR ''@'' # domain) = CHR ''@'' # domain"
    by (simp add: dropWhile_append2)
  show ?thesis
    unfolding m valid_msgid_def using tw dw d
    by (simp add: butlast_append Let_def)
qed

lemma messageId_outcome:
  "messageId (case x of Inr (code, s) \<Rightarrow> Success mid to [] code s
                      | Inl e \<Rightarrow> Failure mid [] to (str_exn e)) = mid"
  by (cases x) (auto split: prod.splits)

section \<open>Results\<close>

text \<open>What \<open>int\<close> makes of some port strings.\<close>

lemma py_int_examples:
  "py_int ''587'' = Some 587"
  "py_int ''465'' = Some 465"
  "py_int ''submission'' = None"
  "py_int [CHR 0x1F, CHR ''2'', CHR ''5''] = None"
  "py_int [CHR 0xA0, CHR ''2'', CHR ''5'', CHR 0x0A] = Some 25"
  by (simp_all add: py_int_def strip_def is_space_def parse_unsigned_def is_digit_def
      digit_val_def int_max_str_digits_def)

lemma parse_unsigned_long:
  "int_max_str_digits < length (filter is_digit s) \<Longrightarrow> parse_unsigned s = None"
  by (cases s) (simp_all add: parse_unsigned_def)

lemma py_int_long_digits:
  assumes "int_max_str_digits < n"
  shows "py_int (replicate n (CHR ''1'')) = None"
proof -
  have d: "is_digit (CHR ''1'')" and w: "\<not> is_space (CHR ''1'')"
    by (simp_all add: is_digit_def is_space_def)
  from assms obtain m where n: "n = Suc m"
    by (cases n) simp_all
  from w have s: "strip (replicate n (CHR ''1'')) = CHR ''1'' # replicate m (CHR ''1'')"
    by (simp add: strip_def dropWhile_replicate n replicate_append_same)
  from d assms have "parse_unsigned (CHR ''1'' # replicate m (CHR ''1'')) = None"
    by (intro parse_unsigned_long) (simp add: n)
  with s show ?thesis
    by (simp add: py_int_def)
qed

lemma py_int_long_port: "py_int long_port = None"
  unfolding long_port_def by (rule py_int_long_digits) (simp add: int_max_str_digits_def)

text \<open>
  C9. The port comes from \<open>SMTP_PORT\<close>, with \<open>587\<close> when the variable is unset.
  A value that \<open>int\<close> cannot parse is not an error: construction behaves exactly as
  if the variable were unset, so with the required variables present the client is
  built and its port is \<open>587\<close>. A value that parses gives that port.
\<close>

theorem C9_port_default_and_fallback:
  "(\<forall>s. py_int s = None \<longrightarrow>
      EmailClient_init (environ(''SMTP_PORT'' \<mapsto> s)) =
      EmailClient_init (environ(''SMTP_PORT'' := None)))
   \<and> (\<not> not_str (environ ''SMTP_HOST'') \<and> \<not> not_str (environ ''SMTP_USER'')
        \<and> \<not> not_str (environ ''SMTP_PASS'') \<longrightarrow>
      (\<exists>c. EmailClient_init environ = Inr c \<and>
           port c = (case environ ''SMTP_PORT'' of
                       None \<Rightarrow> 587
                     | Some s \<Rightarrow> (case py_int s of None \<Rightarrow> 587 | Some n \<Rightarrow> n))))"
proof (intro conjI allI impI)
  fix s assume "py_int s = None"
  then show "EmailClient_init (environ(''SMTP_PORT'' \<mapsto> s)) =
      EmailClient_init (environ(''SMTP_PORT'' := None))"
    by (simp add: EmailClient_init_def environ_get_def py_int_examples)
next
  assume "\<not> not_str (environ ''SMTP_HOST'') \<and> \<not> not_str (environ ''SMTP_USER'')
        \<and> \<not> not_str (environ ''SMTP_PASS'')"
  then show "\<exists>c. EmailClient_init environ = Inr c \<and>
           port c = (case environ ''SMTP_PORT'' of
                       None \<Rightarrow> 587
                     | Some s \<Rightarrow> (case py_int s of None \<Rightarrow> 587 | Some n \<Rightarrow> n))"
    by (simp add: EmailClient_init_def environ_get_def Let_def py_int_examples
        split: option.splits)
qed

theorem C9_witness:
  "py_int ''submission'' = None
   \<and> EmailClient_init example_environ =
       Inr \<lparr> host = ''smtp.example.com'', port = 587, use_tls = False,
             username = ''a@example.com'', password = ''x'', from_addr = ''a@example.com'' \<rparr>
   \<and> EmailClient_init (example_environ(''SMTP_PORT'' := None)) = EmailClient_init example_environ
   \<and> py_int [CHR 0x1F, CHR ''2'', CHR ''5''] = None
   \<and> EmailClient_init (example_environ(''SMTP_PORT'' \<mapsto> [CHR 0x1F, CHR ''2'', CHR ''5''])) =
       EmailClient_init example_environ
   \<and> py_int long_port = None
   \<and> EmailClient_init (example_environ(''SMTP_PORT'' \<mapsto> long_port)) =
       EmailClient_init example_environ
   \<and> py_int ''465'' = Some 465
   \<and> EmailClient_init smtps_environ =
       Inr \<lparr> host = ''smtp.example.com'', port = 465, use_tls = True,
             username = ''a@example.com'', password = ''x'', from_addr = ''a@example.com'' \<rparr>"
proof -
  note p = py_int_examples
  have fallback: "EmailClient_init (example_environ(''SMTP_PORT'' \<mapsto> s)) =
      EmailClient_init (example_environ(''SMTP_PORT'' := None))" if "py_int s = None" for s
    using C9_port_default_and_fallback [of example_environ] that by blast
  have e: "example_environ(''SMTP_PORT'' \<mapsto> ''submission'') = example_environ"
    by (auto simp: example_environ_def)
  from fallback [OF p(3)] e
  have same: "EmailClient_init (example_environ(''SMTP_PORT'' := None)) =
      EmailClient_init example_environ"
    by simp
  from fallback [OF p(4)] same
  have sep: "EmailClient_init (example_environ(''SMTP_PORT'' \<mapsto> [CHR 0x1F, CHR ''2'', CHR ''5''])) =
       EmailClient_init example_environ"
    by (simp only:)
  from fallback [OF py_int_long_port] same
  have long: "EmailClient_init (example_environ(''SMTP_PORT'' \<mapsto> long_port)) =
       EmailClient_init example_environ"
    by (simp only:)
  have r: "\<not> not_str (example_environ ''SMTP_HOST'') \<and> \<not> not_str (example_environ ''SMTP_USER'')
        \<and> \<not> not_str (example_environ ''SMTP_PASS'')"
    by (simp add: example_environ_def not_str_def)
  from C9_port_default_and_fallback [of example_environ] r
  obtain c where c: "EmailClient_init example_environ = Inr c"
    and pc: "port c = (case example_environ ''SMTP_PORT'' of
                       None \<Rightarrow> 587
                     | Some s \<Rightarrow> (case py_int s of None \<Rightarrow> 587 | Some n \<Rightarrow> n))"
    by blast
  from pc p have "port c = 587"
    by (simp add: example_environ_def)
  moreover from c have "c = \<lparr> host = ''smtp.example.com'', port = port c, use_tls = False,
             username = ''a@example.com'', password = ''x'', from_addr = ''a@example.com'' \<rparr>"
    by (auto simp: EmailClient_init_def example_environ_def environ_get_def not_str_def
        lower_def lower_char_def Let_def)
  ultimately have ex: "EmailClient_init example_environ =
       Inr \<lparr> host = ''smtp.example.com'', port = 587, use_tls = False,
             username = ''a@example.com'', password = ''x'', from_addr = ''a@example.com'' \<rparr>"
    using c by simp
  have r': "\<not> not_str (smtps_environ ''SMTP_HOST'') \<and> \<not> not_str (smtps_environ ''SMTP_USER'')
        \<and> \<not> not_str (smtps_environ ''SMTP_PASS'')"
    by (simp add: smtps_environ_def not_str_def)
  from C9_port_default_and_fallback [of smtps_environ] r'
  obtain c' where c': "EmailClient_init smtps_environ = Inr c'"
    and pc': "port c' = (case smtps_environ ''SMTP_PORT'' of
                       None \<Rightarrow> 587
                     | Some s \<Rightarrow> (case py_int s of None \<Rightarrow> 587 | Some n \<Rightarrow> n))"
    by blast
  from pc' p have "port c' = 465"
    by (simp add: smtps_environ_def)
  moreover from c' have "c' = \<lparr> host = ''smtp.example.com'', port = port c', use_tls = True,
             username = ''a@example.com'', password = ''x'', from_addr = ''a@example.com'' \<rparr>"
    by (auto simp: EmailClient_init_def smtps_environ_def environ_get_def not_str_def
        lower_def lower_char_def Let_def)
  ultimately have sm: "EmailClient_init smtps_environ =
       Inr \<lparr> host = ''smtp.example.com'', port = 465, use_tls = True,
             username = ''a@example.com'', password = ''x'', from_addr = ''a@example.com'' \<rparr>"
    using c' by simp
  from p(2,3,4) py_int_long_port same sep long ex sm show ?thesis
    by (simp only: simp_thms)
qed

text \<open>
  C8. An invocation under any name other than \<open>send_email\<close> raises the
  unknown-tool error. The call leaves no event, so the mail sender is not entered,
  and the runtime answers with an error for that call and stays in \<open>Ready\<close> with
  the same client; the requests after it are served as if it had not happened.
\<close>

theorem C8_unknown_tool:
  assumes "name \<noteq> ''send_email''"
  shows "handle_call_tool c env name arguments =
           (Inl (ValueError (''Unknown tool: '' @ name)), [])
         \<and> server_step (Ready c) env (CallTool name arguments) =
           Some (Ready c, ProtocolError (''Unknown tool: '' @ name), [])
         \<and> serve (Ready c) ((env, CallTool name arguments) # rest) =
           ProtocolError (''Unknown tool: '' @ name) # serve (Ready c) rest"
  using assms by (simp add: handle_call_tool_def)

theorem C8_witness:
  "''send_mail'' \<noteq> ''send_email''
   \<and> handle_call_tool example_client (example_env accept_header accept_all) ''send_mail'' example_args =
       (Inl (ValueError ''Unknown tool: send_mail''), [])
   \<and> server_step (Ready example_client) (example_env accept_header accept_all)
         (CallTool ''send_mail'' example_args) =
       Some (Ready example_client, ProtocolError ''Unknown tool: send_mail'', [])"
proof -
  have n: "''send_mail'' \<noteq> ''send_email''" by simp
  from C8_unknown_tool [OF n, of example_client "example_env accept_header accept_all" example_args "[]"] n
  show ?thesis by simp
qed

text \<open>
  C4. With no recipients \<open>send_email\<close> raises its argument error at once: the only
  event is the entry into the mail sender, so no message is created and the
  transport is not asked. An invocation without \<open>to\<close> (or with \<open>null\<close> for it)
  reaches the mail sender with the empty list and fails with that error; the
  runtime answers with an error for that call, stays in \<open>Ready\<close> with the same
  client, and serves the requests after it.
\<close>

theorem C4_no_recipients:
  "send_email c env [] subject text html =
     (Inl (ValueError ''At least one recipient is required''), [MailSenderCalled])
   \<and> (arguments ''to'' = None \<longrightarrow>
        handle_call_tool c env ''send_email'' arguments =
          (Inl (ValueError ''At least one recipient is required''), [MailSenderCalled])
        \<and> server_step (Ready c) env (CallTool ''send_email'' arguments) =
          Some (Ready c, ProtocolError ''At least one recipient is required'', [MailSenderCalled])
        \<and> serve (Ready c) ((env, CallTool ''send_email'' arguments) # rest) =
          ProtocolError ''At least one recipient is required'' # serve (Ready c) rest)"
  by (simp add: send_email_empty handle_call_tool_def dict_get_def py_or_def)

theorem C4_witness:
  "args_without_to ''to'' = None
   \<and> handle_call_tool example_client (example_env accept_header accept_all) ''send_email'' args_without_to =
       (Inl (ValueError ''At least one recipient is required''), [MailSenderCalled])
   \<and> serve (Ready example_client)
        [(example_env accept_header accept_all, CallTool ''send_email'' args_without_to),
         (example_env accept_header accept_all, ListTools)] =
       [ProtocolError ''At least one recipient is required'', ToolsResult handle_list_tools]"
proof -
  have a: "args_without_to ''to'' = None" by (simp add: args_without_to_def)
  from C4_no_recipients [of example_client "example_env accept_header accept_all" "PStr []" "PStr []" PNone
      args_without_to "[(example_env accept_header accept_all, ListTools)]"] a
  show ?thesis by simp
qed

text \<open>
  C5, as stated, fails: a \<open>to\<close> that is present, is not a list and is false in
  Python (here the number \<open>0\<close>) is replaced by the empty list before the check, so
  the check passes and the mail sender is entered; the error is the mail sender's.
\<close>

theorem C5_counterexample:
  "args_to_zero ''to'' = Some (PInt 0)
   \<and> list_of_strings (PInt 0) = None
   \<and> handle_call_tool example_client (example_env accept_header accept_all) ''send_email'' args_to_zero =
       (Inl (ValueError ''At least one recipient is required''), [MailSenderCalled])"
  by (simp add: args_to_zero_def handle_call_tool_def dict_get_def py_or_def send_email_empty)

text \<open>
  C5, amended. Let \<open>to\<close> be present and not a list of strings. The call always
  raises a \<open>ValueError\<close> with no message created and no send attempted. If the
  value is true in Python (a non-empty list with a non-string element, a non-empty
  string or object, a non-zero number, \<open>true\<close>), the error is the gateway's
  validation error and the mail sender is not entered. If it is false in Python
  (\<open>0\<close>, the empty string, \<open>false\<close>, \<open>null\<close>, the empty object), it is treated
  as omitted: the mail sender is entered with the empty list and raises its own
  argument error.
\<close>

theorem C5_malformed_to:
  assumes "arguments ''to'' = Some v" and "list_of_strings v = None"
  shows "(truthy v \<longrightarrow>
            handle_call_tool c env ''send_email'' arguments =
              (Inl (ValueError to_must_be_list), []))
         \<and> (\<not> truthy v \<longrightarrow>
            handle_call_tool c env ''send_email'' arguments =
              (Inl (ValueError ''At least one recipient is required''), [MailSenderCalled]))
         \<and> (\<exists>m tr. handle_call_tool c env ''send_email'' arguments = (Inl (ValueError m), tr)
              \<and> MessageCreated \<notin> set tr \<and> (\<forall>msg a. TransportSend msg a \<notin> set tr))"
proof -
  have t: "truthy v \<Longrightarrow> handle_call_tool c env ''send_email'' arguments =
              (Inl (ValueError to_must_be_list), [])"
    using assms by (simp add: handle_call_tool_def dict_get_def py_or_def)
  have f: "\<not> truthy v \<Longrightarrow> handle_call_tool c env ''send_email'' arguments =
              (Inl (ValueError ''At least one recipient is required''), [MailSenderCalled])"
    using assms by (simp add: handle_call_tool_def dict_get_def py_or_def send_email_empty)
  show ?thesis
  proof (cases "truthy v")
    case True
    with t show ?thesis by simp
  next
    case False
    with f show ?thesis by simp
  qed
qed

theorem C5_witness:
  "args_to_number_list ''to'' = Some (PList [PInt 7])
   \<and> list_of_strings (PList [PInt 7]) = None
   \<and> truthy (PList [PInt 7])
   \<and> handle_call_tool example_client (example_env accept_header accept_all) ''send_email''
        args_to_number_list = (Inl (ValueError to_must_be_list), [])"
proof -
  have a: "args_to_number_list ''to'' = Some (PList [PInt 7])"
    by (simp add: args_to_number_list_def)
  have l: "list_of_strings (PList [PInt 7]) = None" by simp
  from C5_malformed_to [of args_to_number_list "PList [PInt 7]" example_client
      "example_env accept_header accept_all"] a l
  show ?thesis by simp
qed

text \<open>
  C7, as stated, fails: an \<open>htmlBody\<close> that is present but empty is false in the
  test \<open>if html\<close>, and the message is composed with the single plain-text part.
\<close>

theorem C7_counterexample:
  "compose example_client (example_env accept_header accept_all) [''b@example.com'']
      (PStr ''Hi'') (PStr ''Hello'') (PStr []) =
     Inr (make_msgid 173073600000 4242 1234567890123 ''mail.example.com'',
          \<lparr> headers = [(''From'', PStr ''a@example.com''), (''To'', PStr ''b@example.com''),
                        (''Subject'', PStr ''Hi''),
                        (''Message-Id'', PStr (make_msgid 173073600000 4242 1234567890123 ''mail.example.com''))],
            parts = [\<lparr> subtype = ''plain'', payload = PStr ''Hello'' \<rparr>] \<rparr>)"
  by (simp add: compose_def setitem_def set_content_def new_message_def example_env_def
      example_client_def accept_header_def accept_content_def py_or_def Let_def)

text \<open>
  C7, amended. Whenever the message is composed: if \<open>htmlBody\<close> is a non-empty
  string, the message carries exactly two parts, the plain-text part (\<open>textBody\<close>,
  or the empty string if absent) followed by the HTML alternative; if \<open>htmlBody\<close>
  is absent or the empty string, it carries exactly the one plain-text part.
\<close>

theorem C7_content_parts:
  assumes "compose self env to subject text html = Inr (mid, msg)"
  shows "(\<forall>h. html = PStr h \<and> h \<noteq> [] \<longrightarrow>
            parts msg = [\<lparr> subtype = ''plain'', payload = py_or text (PStr []) \<rparr>,
                         \<lparr> subtype = ''html'', payload = PStr h \<rparr>])
         \<and> (html = PNone \<or> html = PStr [] \<longrightarrow>
            parts msg = [\<lparr> subtype = ''plain'', payload = py_or text (PStr []) \<rparr>])
         \<and> py_or PNone (PStr []) = PStr []
         \<and> (\<forall>t. py_or (PStr t) (PStr []) = PStr t)"
proof -
  have two: "truthy html \<Longrightarrow>
      parts msg = [\<lparr> subtype = ''plain'', payload = py_or text (PStr []) \<rparr>,
                   \<lparr> subtype = ''html'', payload = html \<rparr>]"
    using assms
    by (auto simp: compose_def setitem_def set_content_def add_alternative_def new_message_def Let_def
        split: option.splits sum.splits if_splits)
  have one: "\<not> truthy html \<Longrightarrow>
      parts msg = [\<lparr> subtype = ''plain'', payload = py_or text (PStr []) \<rparr>]"
    using assms
    by (auto simp: compose_def setitem_def set_content_def new_message_def Let_def
        split: option.splits sum.splits if_splits)
  have t: "\<forall>t. py_or (PStr t) (PStr []) = PStr t"
    by (simp add: py_or_def)
  from two one t show ?thesis by (auto simp: py_or_def)
qed

theorem C7_witness:
  "compose example_client (example_env accept_header accept_all) [''b@example.com'']
      (PStr ''Hi'') PNone (PStr ''<p>Hello</p>'') =
     Inr (make_msgid 173073600000 4242 1234567890123 ''mail.example.com'',
          \<lparr> headers = [(''From'', PStr ''a@example.com''), (''To'', PStr ''b@example.com''),
                        (''Subject'', PStr ''Hi''),
                        (''Message-Id'', PStr (make_msgid 173073600000 4242 1234567890123 ''mail.example.com''))],
            parts = [\<lparr> subtype = ''plain'', payload = PStr [] \<rparr>,
                     \<lparr> subtype = ''html'', payload = PStr ''<p>Hello</p>'' \<rparr>] \<rparr>)
   \<and> parts \<lparr> headers = [(''From'', PStr ''a@example.com''), (''To'', PStr ''b@example.com''),
                        (''Subject'', PStr ''Hi''),
                        (''Message-Id'', PStr (make_msgid 173073600000 4242 1234567890123 ''mail.example.com''))],
            parts = [\<lparr> subtype = ''plain'', payload = PStr [] \<rparr>,
                     \<lparr> subtype = ''html'', payload = PStr ''<p>Hello</p>'' \<rparr>] \<rparr> =
       [\<lparr> subtype = ''plain'', payload = py_or PNone (PStr []) \<rparr>,
        \<lparr> subtype = ''html'', payload = PStr ''<p>Hello</p>'' \<rparr>]"
proof -
  have c: "compose example_client (example_env accept_header accept_all) [''b@example.com'']
      (PStr ''Hi'') PNone (PStr ''<p>Hello</p>'') =
     Inr (make_msgid 173073600000 4242 1234567890123 ''mail.example.com'',
          \<lparr> headers = [(''From'', PStr ''a@example.com''), (''To'', PStr ''b@example.com''),
                        (''Subject'', PStr ''Hi''),
                        (''Message-Id'', PStr (make_msgid 173073600000 4242 1234567890123 ''mail.example.com''))],
            parts = [\<lparr> subtype = ''plain'', payload = PStr [] \<rparr>,
                     \<lparr> subtype = ''html'', payload = PStr ''<p>Hello</p>'' \<rparr>] \<rparr>)"
    by (simp add: compose_def setitem_def set_content_def add_alternative_def new_message_def
        example_env_def example_client_def accept_header_def accept_content_def py_or_def Let_def)
  from C7_content_parts [OF c] c show ?thesis by simp
qed

text \<open>
  C6. The arguments of every send carry \<open>use_tls\<close> equal to the secure flag and
  \<open>start_tls\<close> equal to its negation, so exactly one of the two is set: implicit
  TLS when the flag is true, STARTTLS when it is false, never both and never
  neither. A call asks the transport at most once, with these arguments. Changing
  the flag changes nothing else in the arguments and nothing in the composition:
  with the same request and the same collaborators the composed message (and the
  error, if composing fails) is identical.
\<close>

theorem C6_transport_mode:
  "arg_use_tls (transport_args c) = use_tls c
   \<and> arg_start_tls (transport_args c) = (\<not> use_tls c)
   \<and> mode_of (transport_args c) = Some (if use_tls c then ImplicitTLS else STARTTLS)
   \<and> (\<forall>msg a. TransportSend msg a \<in> set (snd (send_email c env to subject text html)) \<longrightarrow>
         a = transport_args c)
   \<and> length (filter (\<lambda>ev. ev \<noteq> MailSenderCalled \<and> ev \<noteq> MessageCreated)
        (snd (send_email c env to subject text html))) \<le> 1
   \<and> transport_args (c\<lparr> use_tls := b \<rparr>) =
       (transport_args c)\<lparr> arg_use_tls := b, arg_start_tls := \<not> b \<rparr>
   \<and> compose (c\<lparr> use_tls := b \<rparr>) env to subject text html = compose c env to subject text html"
proof -
  have tr: "snd (send_email c env to subject text html) = [MailSenderCalled]
      \<or> snd (send_email c env to subject text html) = [MailSenderCalled, MessageCreated]
      \<or> (\<exists>msg. snd (send_email c env to subject text html) =
            [MailSenderCalled, MessageCreated, TransportSend msg (transport_args c)])"
    by (cases "compose c env to subject text html")
       (auto simp: send_email_def split: prod.splits)
  have a: "\<forall>msg a. TransportSend msg a \<in> set (snd (send_email c env to subject text html)) \<longrightarrow>
         a = transport_args c"
    using tr by auto
  have l: "length (filter (\<lambda>ev. ev \<noteq> MailSenderCalled \<and> ev \<noteq> MessageCreated)
        (snd (send_email c env to subject text html))) \<le> 1"
    using tr by auto
  have m: "mode_of (transport_args c) = Some (if use_tls c then ImplicitTLS else STARTTLS)"
    by (simp add: mode_of_def transport_args_def)
  have c: "compose (c\<lparr> use_tls := b \<rparr>) env to subject text html = compose c env to subject text html"
    by (simp add: compose_def)
  from a l m c show ?thesis
    by (simp add: transport_args_def)
qed

theorem C6_witness:
  "mode_of (transport_args example_client) = Some STARTTLS
   \<and> mode_of (transport_args (example_client\<lparr> use_tls := True \<rparr>)) = Some ImplicitTLS
   \<and> compose (example_client\<lparr> use_tls := True \<rparr>) (example_env accept_header accept_all)
        [''b@example.com''] (PStr ''Hi'') (PStr ''Hello'') PNone =
     compose example_client (example_env accept_header accept_all)
        [''b@example.com''] (PStr ''Hi'') (PStr ''Hello'') PNone"
proof -
  have f: "use_tls example_client = False" "use_tls (example_client\<lparr> use_tls := True \<rparr>) = True"
    by (simp_all add: example_client_def)
  from C6_transport_mode [of example_client "example_env accept_header accept_all"
      "[''b@example.com'']" "PStr ''Hi''" "PStr ''Hello''" PNone True]
    C6_transport_mode [of "example_client\<lparr> use_tls := True \<rparr>" "example_env accept_header accept_all"
      "[''b@example.com'']" "PStr ''Hi''" "PStr ''Hello''" PNone True] f
  show ?thesis by simp
qed

text \<open>
  C1. Let the recipients be non-empty and the message be composed, and let the
  transport send raise an exception \<open>e\<close>. Then \<open>send_email\<close> does not raise: it
  returns the failure record with the generated id, no accepted recipient, all
  recipients rejected and the text of \<open>e\<close>. When the call comes through the
  gateway, the handler returns one text item holding that record as JSON, and the
  runtime answers with a normal result, not with an error, and stays in \<open>Ready\<close>.
\<close>

theorem C1_transport_failure_is_a_result:
  "(to \<noteq> [] \<and> compose c env to subject text html = Inr (mid, msg)
      \<and> smtp_send env msg (transport_args c) = Inl e \<longrightarrow>
      send_email c env to subject text html =
        (Inr (Failure mid [] to (str_exn e)),
         [MailSenderCalled, MessageCreated, TransportSend msg (transport_args c)]))
   \<and> (list_of_strings (py_or (dict_get arguments ''to'') (PList [])) = Some to \<and> to \<noteq> []
      \<and> compose c env to (py_or (dict_get arguments ''subject'') (PStr []))
            (py_or (dict_get arguments ''body'') (PStr [])) PNone = Inr (mid, msg)
      \<and> smtp_send env msg (transport_args c) = Inl e \<longrightarrow>
      handle_call_tool c env ''send_email'' arguments =
        (Inr [\<lparr> content_type = ''text'',
                content_text = json_dumps (float_repr env)
                                 (result_dict (Failure mid [] to (str_exn e))) \<rparr>],
         [MailSenderCalled, MessageCreated, TransportSend msg (transport_args c)])
      \<and> server_step (Ready c) env (CallTool ''send_email'' arguments) =
        Some (Ready c,
              CallResult [\<lparr> content_type = ''text'',
                            content_text = json_dumps (float_repr env)
                                             (result_dict (Failure mid [] to (str_exn e))) \<rparr>],
              [MailSenderCalled, MessageCreated, TransportSend msg (transport_args c)]))"
proof -
  have direct: "send_email c env to subject text html =
        (Inr (Failure mid [] to (str_exn e)),
         [MailSenderCalled, MessageCreated, TransportSend msg (transport_args c)])"
    if "to \<noteq> []" and "compose c env to subject text html = Inr (mid, msg)"
      and "smtp_send env msg (transport_args c) = Inl e"
    using that by (simp add: send_email_composed try_body_def)
  have gateway: "handle_call_tool c env ''send_email'' arguments =
        (Inr [\<lparr> content_type = ''text'',
                content_text = json_dumps (float_repr env)
                                 (result_dict (Failure mid [] to (str_exn e))) \<rparr>],
         [MailSenderCalled, MessageCreated, TransportSend msg (transport_args c)])"
    if l: "list_of_strings (py_or (dict_get arguments ''to'') (PList [])) = Some to"
      and n: "to \<noteq> []"
      and k: "compose c env to (py_or (dict_get arguments ''subject'') (PStr []))
            (py_or (dict_get arguments ''body'') (PStr [])) PNone = Inr (mid, msg)"
      and t: "smtp_send env msg (transport_args c) = Inl e"
  proof -
    from n k t have "send_email c env to (py_or (dict_get arguments ''subject'') (PStr []))
            (py_or (dict_get arguments ''body'') (PStr [])) PNone =
        (Inr (Failure mid [] to (str_exn e)),
         [MailSenderCalled, MessageCreated, TransportSend msg (transport_args c)])"
      by (simp add: send_email_composed try_body_def)
    with l show ?thesis
      by (simp add: handle_call_tool_def Let_def)
  qed
  from direct gateway show ?thesis
    by simp
qed

theorem C1_witness:
  "list_of_strings (py_or (dict_get example_args ''to'') (PList [])) = Some [''b@example.com'']
   \<and> compose example_client (example_env accept_header refuse_auth) [''b@example.com'']
        (PStr ''Hi'') (PStr ''Hello'') PNone = Inr (example_msgid, example_message)
   \<and> smtp_send (example_env accept_header refuse_auth) example_message
        (transport_args example_client) =
       Inl (OtherError ''SMTPAuthenticationError'' ''authentication failed'')
   \<and> send_email example_client (example_env accept_header refuse_auth) [''b@example.com'']
        (PStr ''Hi'') (PStr ''Hello'') PNone =
       (Inr (Failure example_msgid [] [''b@example.com''] ''authentication failed''),
        [MailSenderCalled, MessageCreated,
         TransportSend example_message (transport_args example_client)])
   \<and> server_step (Ready example_client) (example_env accept_header refuse_auth)
        (CallTool ''send_email'' example_args) =
       Some (Ready example_client,
             CallResult [\<lparr> content_type = ''text'',
                           content_text = json_dumps zero_repr
                             (result_dict (Failure example_msgid [] [''b@example.com'']
                                ''authentication failed'')) \<rparr>],
             [MailSenderCalled, MessageCreated,
              TransportSend example_message (transport_args example_client)])"
proof -
  have a: "py_or (dict_get example_args ''to'') (PList []) = PList [PStr ''b@example.com'']"
      "py_or (dict_get example_args ''subject'') (PStr []) = PStr ''Hi''"
      "py_or (dict_get example_args ''body'') (PStr []) = PStr ''Hello''"
    by (simp_all add: example_args_def dict_get_def py_or_def)
  have l: "list_of_strings (PList [PStr ''b@example.com'']) = Some [''b@example.com'']"
    by simp
  have c: "compose example_client (example_env accept_header refuse_auth) [''b@example.com'']
        (PStr ''Hi'') (PStr ''Hello'') PNone = Inr (example_msgid, example_message)"
    by (simp add: compose_def setitem_def set_content_def new_message_def example_env_def
        example_client_def accept_header_def accept_content_def py_or_def Let_def
        example_msgid_def example_message_def)
  have t: "smtp_send (example_env accept_header refuse_auth) example_message
        (transport_args example_client) =
       Inl (OtherError ''SMTPAuthenticationError'' ''authentication failed'')"
    by (simp add: example_env_def refuse_auth_def)
  have f: "float_repr (example_env accept_header refuse_auth) = zero_repr"
    by (simp add: example_env_def)
  from C1_transport_failure_is_a_result [of "[''b@example.com'']" example_client
      "example_env accept_header refuse_auth" "PStr ''Hi''" "PStr ''Hello''" PNone
      example_msgid example_message
      "OtherError ''SMTPAuthenticationError'' ''authentication failed''" example_args]
    a l c t f
  show ?thesis by simp
qed

text \<open>
  C3, as stated, fails in its last part: the error field is the text of the
  exception, and an exception without a message has the empty text. Here the
  transport raises a timeout error constructed without arguments.
\<close>

theorem C3_counterexample:
  "fst (send_email example_client (example_env accept_header fail_silently) [''b@example.com'']
          (PStr ''Hi'') (PStr ''Hello'') PNone) =
     Inr (Failure example_msgid [] [''b@example.com''] [])"
proof -
  have c: "compose example_client (example_env accept_header fail_silently) [''b@example.com'']
        (PStr ''Hi'') (PStr ''Hello'') PNone = Inr (example_msgid, example_message)"
    by (simp add: compose_def setitem_def set_content_def new_message_def example_env_def
        example_client_def accept_header_def accept_content_def py_or_def Let_def
        example_msgid_def example_message_def)
  have t: "try_body (example_env accept_header fail_silently) example_message
        (transport_args example_client) = Inl (OtherError ''TimeoutError'' [])"
    by (simp add: try_body_def example_env_def fail_silently_def)
  from send_email_composed [OF _ c] t show ?thesis by simp
qed

text \<open>
  C3, amended. Whenever \<open>send_email\<close> returns a record for the recipients \<open>to\<close>:
  a success record has \<open>accepted\<close> equal to \<open>to\<close> (same elements, same order)
  and \<open>rejected\<close> empty; a failure record has \<open>rejected\<close> equal to \<open>to\<close>,
  \<open>accepted\<close> empty, and \<open>error\<close> equal to the text of the exception that the
  guarded send raised, whatever that text is.
\<close>

theorem C3_result_invariants:
  assumes "send_email c env to subject text html = (Inr r, tr)"
  shows "case r of
           Success mid acc rej code info \<Rightarrow> acc = to \<and> rej = []
         | Failure mid acc rej err \<Rightarrow>
             rej = to \<and> acc = [] \<and>
             (\<exists>msg e. compose c env to subject text html = Inr (mid, msg)
                \<and> try_body env msg (transport_args c) = Inl e \<and> err = str_exn e)"
proof -
  from send_email_outcomes(2) [OF assms]
  obtain mid msg where c: "compose c env to subject text html = Inr (mid, msg)"
    and r: "r = (case try_body env msg (transport_args c) of
                   Inr (code, s) \<Rightarrow> Success mid to [] code s
                 | Inl e \<Rightarrow> Failure mid [] to (str_exn e))"
    by blast
  show ?thesis
  proof (cases "try_body env msg (transport_args c)")
    case (Inl e)
    with r c show ?thesis by auto
  next
    case (Inr p)
    with r show ?thesis by (cases p) simp
  qed
qed

theorem C3_witness:
  "send_email example_client (example_env accept_header accept_all) [''b@example.com'']
        (PStr ''Hi'') (PStr ''Hello'') PNone =
       (Inr (Success example_msgid [''b@example.com''] [] (PInt 250) ''OK''),
        [MailSenderCalled, MessageCreated,
         TransportSend example_message (transport_args example_client)])
   \<and> (case Success example_msgid [''b@example.com''] [] (PInt 250) ''OK'' of
         Success mid acc rej code info \<Rightarrow> acc = [''b@example.com''] \<and> rej = []
       | Failure mid acc rej err \<Rightarrow> False)"
proof -
  have c: "compose example_client (example_env accept_header accept_all) [''b@example.com'']
        (PStr ''Hi'') (PStr ''Hello'') PNone = Inr (example_msgid, example_message)"
    by (simp add: compose_def setitem_def set_content_def new_message_def example_env_def
        example_client_def accept_header_def accept_content_def py_or_def Let_def
        example_msgid_def example_message_def)
  have t: "try_body (example_env accept_header accept_all) example_message
        (transport_args example_client) = Inr (PInt 250, ''OK'')"
    by (simp add: try_body_def info_text_def example_env_def accept_all_def)
  from send_email_composed [OF _ c] t
  have s: "send_email example_client (example_env accept_header accept_all) [''b@example.com'']
        (PStr ''Hi'') (PStr ''Hello'') PNone =
       (Inr (Success example_msgid [''b@example.com''] [] (PInt 250) ''OK''),
        [MailSenderCalled, MessageCreated,
         TransportSend example_message (transport_args example_client)])"
    by simp
  from C3_result_invariants [OF s] s show ?thesis by simp
qed

text \<open>
  C10, as stated, fails in its first part: the handler also covers the reading of
  the response, so an exception raised there becomes a failure record although the
  transport send itself returned. Here the transport answers with a byte that does
  not decode.
\<close>

theorem C10_counterexample:
  "smtp_send (example_env accept_header answer_raw) example_message
      (transport_args example_client) = Inr (PInt 250, InfoBytes [CHR 0xFF])
   \<and> send_email example_client (example_env accept_header answer_raw) [''b@example.com'']
        (PStr ''Hi'') (PStr ''Hello'') PNone =
       (Inr (Failure example_msgid [] [''b@example.com''] ''invalid start byte''),
        [MailSenderCalled, MessageCreated,
         TransportSend example_message (transport_args example_client)])"
proof -
  have c: "compose example_client (example_env accept_header answer_raw) [''b@example.com'']
        (PStr ''Hi'') (PStr ''Hello'') PNone = Inr (example_msgid, example_message)"
    by (simp add: compose_def setitem_def set_content_def new_message_def example_env_def
        example_client_def accept_header_def accept_content_def py_or_def Let_def
        example_msgid_def example_message_def)
  have t: "try_body (example_env accept_header answer_raw) example_message
        (transport_args example_client) = Inl (OtherError ''UnicodeDecodeError'' ''invalid start byte'')"
    by (simp add: try_body_def info_text_def example_env_def answer_raw_def ascii_decode_def)
  have s: "smtp_send (example_env accept_header answer_raw) example_message
      (transport_args example_client) = Inr (PInt 250, InfoBytes [CHR 0xFF])"
    by (simp add: example_env_def answer_raw_def)
  from send_email_composed [OF _ c] t s show ?thesis by simp
qed

text \<open>
  C10, amended. The exceptions converted into the failure record are exactly those
  raised inside the guarded region, by the transport send or by the decoding of
  its response. The message id and the message are made before that region: when
  the library refuses a field during composition, \<open>send_email\<close> raises that error
  to the caller, returns no record and never asks the transport; and a failure
  record is returned only after the message was composed.
\<close>

theorem C10_only_guarded_errors_become_results:
  "(to \<noteq> [] \<and> compose c env to subject text html = Inl e \<longrightarrow>
      send_email c env to subject text html = (Inl e, [MailSenderCalled, MessageCreated]))
   \<and> (fst (send_email c env to subject text html) = Inr (Failure mid acc rej err) \<longrightarrow>
      (\<exists>msg e'. compose c env to subject text html = Inr (mid, msg)
          \<and> try_body env msg (transport_args c) = Inl e' \<and> err = str_exn e'))
   \<and> (try_body env m a = Inl x \<longleftrightarrow>
        smtp_send env m a = Inl x
        \<or> (\<exists>code b. smtp_send env m a = Inr (code, InfoBytes b) \<and> bytes_decode env b = Inl x))"
proof -
  have refused: "send_email c env to subject text html = (Inl e, [MailSenderCalled, MessageCreated])"
    if "to \<noteq> []" and "compose c env to subject text html = Inl e"
    using that by (rule send_email_refused)
  have failure: "\<exists>msg e'. compose c env to subject text html = Inr (mid, msg)
          \<and> try_body env msg (transport_args c) = Inl e' \<and> err = str_exn e'"
    if f: "fst (send_email c env to subject text html) = Inr (Failure mid acc rej err)"
  proof -
    from f have s: "send_email c env to subject text html =
        (Inr (Failure mid acc rej err), snd (send_email c env to subject text html))"
      by (metis prod.collapse)
    from send_email_outcomes(2) [OF s]
    obtain mid' msg where k: "compose c env to subject text html = Inr (mid', msg)"
      and r: "Failure mid acc rej err = (case try_body env msg (transport_args c) of
                   Inr (code, s) \<Rightarrow> Success mid' to [] code s
                 | Inl e \<Rightarrow> Failure mid' [] to (str_exn e))"
      by blast
    show ?thesis
    proof (cases "try_body env msg (transport_args c)")
      case (Inl e')
      with r k show ?thesis by auto
    next
      case (Inr p)
      with r show ?thesis by (cases p) simp
    qed
  qed
  from refused failure try_body_raises [of env m a x] show ?thesis
    by blast
qed

theorem C10_witness:
  "compose example_client (example_env refuse_linefeed accept_all) [''b@example.com'']
      (PStr two_line_subject) (PStr ''Hello'') PNone =
     Inl (ValueError ''Header values may not contain linefeed or carriage return characters'')
   \<and> send_email example_client (example_env refuse_linefeed accept_all) [''b@example.com'']
      (PStr two_line_subject) (PStr ''Hello'') PNone =
     (Inl (ValueError ''Header values may not contain linefeed or carriage return characters''),
      [MailSenderCalled, MessageCreated])"
proof -
  have c: "compose example_client (example_env refuse_linefeed accept_all) [''b@example.com'']
      (PStr two_line_subject) (PStr ''Hello'') PNone =
     Inl (ValueError ''Header values may not contain linefeed or carriage return characters'')"
    by (simp add: compose_def setitem_def new_message_def example_env_def
        example_client_def refuse_linefeed_def two_line_subject_def)
  from C10_only_guarded_errors_become_results [of "[''b@example.com'']" example_client
      "example_env refuse_linefeed accept_all" "PStr two_line_subject" "PStr ''Hello''" PNone
      "ValueError ''Header values may not contain linefeed or carriage return characters''"] c
  show ?thesis by simp
qed

text \<open>
  C2, as stated, fails in one part: the identifier is not well-formed for every
  call. Its right side is the host's fully qualified name as the system reports it,
  and \<open>send_email\<close> does not check it. On a host whose name ends with a dot the
  call succeeds and returns an identifier whose right side is not a dot-atom.
\<close>

theorem C2_counterexample:
  "send_email example_client dotted_env [''b@example.com''] (PStr ''Hi'') (PStr ''Hello'') PNone =
     (Inr (Success (make_msgid 173073600000 4242 1234567890123 ''mail.example.com.'')
             [''b@example.com''] [] (PInt 250) ''OK''),
      [MailSenderCalled, MessageCreated,
       TransportSend
         \<lparr> headers = [(''From'', PStr ''a@example.com''), (''To'', PStr ''b@example.com''),
                       (''Subject'', PStr ''Hi''),
                       (''Message-Id'',
                        PStr (make_msgid 173073600000 4242 1234567890123 ''mail.example.com.''))],
           parts = [\<lparr> subtype = ''plain'', payload = PStr ''Hello'' \<rparr>] \<rparr>
         (transport_args example_client)])
   \<and> \<not> valid_msgid (make_msgid 173073600000 4242 1234567890123 ''mail.example.com.'')"
proof -
  have c: "compose example_client dotted_env [''b@example.com''] (PStr ''Hi'') (PStr ''Hello'') PNone =
      Inr (make_msgid 173073600000 4242 1234567890123 ''mail.example.com.'',
           \<lparr> headers = [(''From'', PStr ''a@example.com''), (''To'', PStr ''b@example.com''),
                         (''Subject'', PStr ''Hi''),
                         (''Message-Id'',
                          PStr (make_msgid 173073600000 4242 1234567890123 ''mail.example.com.''))],
             parts = [\<lparr> subtype = ''plain'', payload = PStr ''Hello'' \<rparr>] \<rparr>)"
    by (simp add: compose_def setitem_def set_content_def new_message_def dotted_env_def
        example_env_def example_client_def accept_header_def accept_content_def py_or_def Let_def)
  have t: "try_body dotted_env m (transport_args example_client) = Inr (PInt 250, ''OK'')" for m
    by (simp add: try_body_def info_text_def dotted_env_def example_env_def accept_all_def)
  have n: "\<not> dot_atom_text ''mail.example.com.''"
    by (simp add: dot_atom_text_def is_atext_def)
  from send_email_composed [OF _ c] t n show ?thesis
    by (simp add: make_msgid_valid_iff)
qed

text \<open>
  C2, amended. Whenever \<open>send_email\<close> returns a record, its \<open>messageId\<close> is the
  identifier that \<open>make_msgid\<close> produced from the clock, the process id, the
  random bits and the host name of this call. It is not empty and has the form
  \<open><digits.digits.digits@host>\<close>; it is a well-formed message identifier exactly
  when the host name is a dot-atom. It was generated before the send: the message
  handed to the transport already carries it as its \<open>Message-Id\<close> header. It
  does not depend on the outcome: with any other behaviour of the transport and of
  the decoding, the call again returns a record, success or failure, with the same
  \<open>messageId\<close>. A record is returned for every non-empty recipient list whenever
  the library accepts the fields.
\<close>

theorem C2_message_id:
  "(send_email c env to subject text html = (Inr r, tr) \<longrightarrow>
      messageId r = make_msgid (timeval env) (pid env) (randint env) (fqdn env)
      \<and> messageId r =
          ''<'' @ dec (timeval env) @ ''.'' @ dec (pid env) @ ''.'' @ dec (randint env)
            @ ''@'' @ fqdn env @ ''>''
      \<and> messageId r \<noteq> []
      \<and> (valid_msgid (messageId r) \<longleftrightarrow> dot_atom_text (fqdn env))
      \<and> (\<exists>msg. tr = [MailSenderCalled, MessageCreated, TransportSend msg (transport_args c)]
            \<and> map_of (headers msg) ''Message-Id'' = Some (PStr (messageId r)))
      \<and> (\<forall>t d. \<exists>r'. fst (send_email c (env\<lparr> smtp_send := t, bytes_decode := d \<rparr>)
                              to subject text html) = Inr r'
                    \<and> messageId r' = messageId r))
   \<and> (to \<noteq> [] \<and> (\<forall>name v. header_error env name v = None)
        \<and> (\<forall>v st. content_error env v st = None) \<longrightarrow>
      (\<exists>r tr. send_email c env to subject text html = (Inr r, tr)))"
proof -
  have returned: "messageId r = make_msgid (timeval env) (pid env) (randint env) (fqdn env)
      \<and> messageId r =
          ''<'' @ dec (timeval env) @ ''.'' @ dec (pid env) @ ''.'' @ dec (randint env)
            @ ''@'' @ fqdn env @ ''>''
      \<and> messageId r \<noteq> []
      \<and> (valid_msgid (messageId r) \<longleftrightarrow> dot_atom_text (fqdn env))
      \<and> (\<exists>msg. tr = [MailSenderCalled, MessageCreated, TransportSend msg (transport_args c)]
            \<and> map_of (headers msg) ''Message-Id'' = Some (PStr (messageId r)))
      \<and> (\<forall>t d. \<exists>r'. fst (send_email c (env\<lparr> smtp_send := t, bytes_decode := d \<rparr>)
                              to subject text html) = Inr r'
                    \<and> messageId r' = messageId r)"
    if s: "send_email c env to subject text html = (Inr r, tr)"
  proof -
    from send_email_outcomes [OF s]
    obtain mid msg where n: "to \<noteq> []"
      and k: "compose c env to subject text html = Inr (mid, msg)"
      and t: "tr = [MailSenderCalled, MessageCreated, TransportSend msg (transport_args c)]"
      and r: "r = (case try_body env msg (transport_args c) of
                     Inr (code, s) \<Rightarrow> Success mid to [] code s
                   | Inl e \<Rightarrow> Failure mid [] to (str_exn e))"
      by blast
    from r have i: "messageId r = mid"
      by (simp add: messageId_outcome)
    from compose_headers [OF k]
    have m: "mid = make_msgid (timeval env) (pid env) (randint env) (fqdn env)"
      and h: "map_of (headers msg) ''Message-Id'' = Some (PStr mid)"
      by simp_all
    from m have f: "mid = ''<'' @ dec (timeval env) @ ''.'' @ dec (pid env) @ ''.''
        @ dec (randint env) @ ''@'' @ fqdn env @ ''>''"
      by (simp add: make_msgid_def)
    from m have ne: "mid \<noteq> []"
      by (simp add: make_msgid_def)
    from m have v: "valid_msgid mid \<longleftrightarrow> dot_atom_text (fqdn env)"
      by (simp only: make_msgid_valid_iff)
    have o: "\<exists>r'. fst (send_email c (env\<lparr> smtp_send := t', bytes_decode := d \<rparr>)
                              to subject text html) = Inr r' \<and> messageId r' = mid" for t' d
    proof -
      from k have "compose c (env\<lparr> smtp_send := t', bytes_decode := d \<rparr>) to subject text html =
          Inr (mid, msg)"
        by (simp add: compose_ignores_transport)
      from send_email_composed [OF n this] show ?thesis
        by (simp add: messageId_outcome)
    qed
    from i m f ne v t h o show ?thesis
      by blast
  qed
  have returns: "\<exists>r tr. send_email c env to subject text html = (Inr r, tr)"
    if n: "to \<noteq> []" and "\<forall>name v. header_error env name v = None"
      and "\<forall>v st. content_error env v st = None"
  proof -
    from compose_accepted [OF that(2,3)]
    obtain msg where "compose c env to subject text html =
        Inr (make_msgid (timeval env) (pid env) (randint env) (fqdn env), msg)"
      by blast
    from send_email_composed [OF n this] show ?thesis
      by blast
  qed
  from returned returns show ?thesis
    by blast
qed

theorem C2_witness:
  "send_email example_client (example_env accept_header accept_all) [''b@example.com'']
        (PStr ''Hi'') (PStr ''Hello'') PNone =
       (Inr (Success example_msgid [''b@example.com''] [] (PInt 250) ''OK''),
        [MailSenderCalled, MessageCreated,
         TransportSend example_message (transport_args example_client)])
   \<and> fst (send_email example_client (example_env accept_header refuse_auth) [''b@example.com'']
        (PStr ''Hi'') (PStr ''Hello'') PNone) =
       Inr (Failure example_msgid [] [''b@example.com''] ''authentication failed'')
   \<and> dot_atom_text ''mail.example.com''
   \<and> valid_msgid example_msgid
   \<and> example_msgid \<noteq> []"
proof -
  have c: "compose example_client (example_env accept_header t) [''b@example.com'']
        (PStr ''Hi'') (PStr ''Hello'') PNone = Inr (example_msgid, example_message)" for t
    by (simp add: compose_def setitem_def set_content_def new_message_def example_env_def
        example_client_def accept_header_def accept_content_def py_or_def Let_def
        example_msgid_def example_message_def)
  have ok: "try_body (example_env accept_header accept_all) example_message
        (transport_args example_client) = Inr (PInt 250, ''OK'')"
    by (simp add: try_body_def info_text_def example_env_def accept_all_def)
  have no: "try_body (example_env accept_header refuse_auth) example_message
        (transport_args example_client) =
        Inl (OtherError ''SMTPAuthenticationError'' ''authentication failed'')"
    by (simp add: try_body_def example_env_def refuse_auth_def)
  from send_email_composed [OF _ c] ok
  have s: "send_email example_client (example_env accept_header accept_all) [''b@example.com'']
        (PStr ''Hi'') (PStr ''Hello'') PNone =
       (Inr (Success example_msgid [''b@example.com''] [] (PInt 250) ''OK''),
        [MailSenderCalled, MessageCreated,
         TransportSend example_message (transport_args example_client)])"
    by simp
  from send_email_composed [OF _ c] no
  have f: "fst (send_email example_client (example_env accept_header refuse_auth) [''b@example.com'']
        (PStr ''Hi'') (PStr ''Hello'') PNone) =
       Inr (Failure example_msgid [] [''b@example.com''] ''authentication failed'')"
    by simp
  have d: "dot_atom_text (fqdn (example_env accept_header accept_all))"
    by (simp add: example_env_def dot_atom_text_def is_atext_def)
  have d': "dot_atom_text ''mail.example.com''"
    by (simp add: dot_atom_text_def is_atext_def)
  from C2_message_id [of example_client "example_env accept_header accept_all"
      "[''b@example.com'']" "PStr ''Hi''" "PStr ''Hello''" PNone
      "Success example_msgid [''b@example.com''] [] (PInt 250) ''OK''"
      "[MailSenderCalled, MessageCreated,
         TransportSend example_message (transport_args example_client)]"] s d
  have "valid_msgid example_msgid \<and> example_msgid \<noteq> []"
    by simp
  with s f d' show ?thesis by simp
qed

end
